theory Spec2Isabelle
  imports Main "HOL-Library.Word"
begin

unbundle bit_operations_syntax

section \<open>The per-peer protocol driver \<open>NetworkAgent\<close>\<close>

text \<open>
  The class \<open>NetworkAgent\<close> drives one channel to a remote peer: the version/verack
  handshake, the check that decides which messages are acceptable in which state, the ping/pong
  connectivity check and the getaddr/addr exchange. Its handlers mutate three fields
  (\<open>_connected\<close>, \<open>_version\<close>, \<open>_timers\<close>) and call out to the channel, to the
  address pool, to its own listeners and to the console. The embedding passes the
  fields as a record and returns, with the new record, the list of calls the handler
  made, in the order it made them.
\<close>

subsection \<open>Messages\<close>

type_synonym nonce = "32 word"
type_synonym service_mask = "32 word"
type_synonym net_address = string
type_synonym peer_channel = nat

text \<open>The constants of \<open>Message.Type\<close> that \<open>_canAcceptMessage\<close> and the channel's
  events distinguish.\<close>

datatype message_type = VERSION | VERACK | ADDR | GETADDR | PING | PONG

text \<open>A version message carries the fields the agent reads: \<open>msg.version\<close>,
  \<open>msg.services\<close> and \<open>msg.startHeight\<close>.\<close>

datatype version_message =
  VersionMessage (msg_version: nat) (msg_services: service_mask) (msg_startHeight: nat)

datatype message =
    Version version_message
  | VerAck
  | Addr "net_address list"
  | GetAddr service_mask
  | Ping nonce
  | Pong nonce

fun msg_type :: "message \<Rightarrow> message_type" where
  "msg_type (Version vm) = VERSION"
| "msg_type VerAck = VERACK"
| "msg_type (Addr addresses) = ADDR"
| "msg_type (GetAddr serviceMask) = GETADDR"
| "msg_type (Ping n) = PING"
| "msg_type (Pong n) = PONG"

text \<open>\<open>RejectMessage.Code\<close>: the agent uses the code \<open>DUPLICATE\<close> only.\<close>

datatype reject_code = DUPLICATE

text \<open>\<open>new Peer(channel, version, services, netAddress, startHeight)\<close>.\<close>

datatype peer = Peer peer_channel nat service_mask string nat

subsection \<open>The calls a handler makes\<close>

text \<open>One constructor per \<open>console.log\<close> and \<open>console.warn\<close> statement of the class,
  with the values the statement prints.\<close>

datatype console_line =
    LogVersion nat
  | LogVerAck
  | LogAddr nat
  | LogGetAddr service_mask
  | LogPing nonce
  | LogPong nonce
  | WarnDuplicateVersion
  | WarnNoAddresses
  | WarnDiscarding bool message

datatype action =
    ChannelVersion nat
  | ChannelVerAck
  | ChannelReject string reject_code
  | ChannelGetAddr service_mask
  | ChannelAddr "net_address list"
  | ChannelPing nonce
  | ChannelPong nonce
  | ChannelClose string
  | FireConnected peer
  | FireAddresses "net_address list"
  | AddressesPush peer_channel "net_address list"
  | Console console_line

subsection \<open>The timer registry\<close>

text \<open>
  The callbacks the agent hands to its timers: the one-shot timers either close the
  channel with a reason or fire \<open>addresses\<close> with the empty list; the only repeating
  timer runs \<open>_checkConnectivity\<close>.
\<close>

datatype timeout_callback = CloseChannel string | AddressesTimeout

datatype interval_callback = CheckConnectivity

datatype timer_entry =
    OneShot timeout_callback nat
  | Repeating interval_callback nat

type_synonym timers = "string \<rightharpoonup> timer_entry"

text \<open>
  Modelled from the spec: the class \<open>Timers\<close> is not among the source files. The
  specification describes it as named, cancelable one-shot and repeating timers keyed by
  a string, with at most one live entry per name; \<open>clearTimeout\<close> and
  \<open>clearInterval\<close> cancel a pending entry by name and do nothing when it is absent; a
  canceled callback never fires afterward. The specification leaves open what arming a
  name that is already live does; here the new entry replaces the old one (the policy
  the specification recommends). In a run from the constructor the agent arms
  \<open>verack\<close>, \<open>version\<close>, \<open>connectivity\<close> and \<open>getaddr\<close> once each, while the
  name is not live; only a connectivity tick that draws the nonce of an outstanding ping
  arms a live name.
\<close>

definition setTimeout :: "string \<Rightarrow> timeout_callback \<Rightarrow> nat \<Rightarrow> timers \<Rightarrow> timers" where
  "setTimeout name callback delay t = t(name \<mapsto> OneShot callback delay)"

definition setInterval :: "string \<Rightarrow> interval_callback \<Rightarrow> nat \<Rightarrow> timers \<Rightarrow> timers" where
  "setInterval name callback period t = t(name \<mapsto> Repeating callback period)"

definition clearTimeout :: "string \<Rightarrow> timers \<Rightarrow> timers" where
  "clearTimeout name t = t(name := None)"

definition clearInterval :: "string \<Rightarrow> timers \<Rightarrow> timers" where
  "clearInterval name t = t(name := None)"

subsection \<open>Decimal numerals in timer names\<close>

text \<open>\<open>'ping_' + nonce\<close> appends the decimal numeral of the nonce, as JavaScript prints
  an integer below \<open>2^53\<close>.\<close>

definition digit :: "nat \<Rightarrow> char" where
  "digit d = char_of (48 + d)"

fun decimal :: "nat \<Rightarrow> string" where
  "decimal n = (if n < 10 then [digit n] else decimal (n div 10) @ [digit (n mod 10)])"

declare decimal.simps [simp del]

definition ping_timer :: "nonce \<Rightarrow> string" where
  "ping_timer n = ''ping_'' @ decimal (unat n)"

subsection \<open>The agent\<close>

definition HANDSHAKE_TIMEOUT :: nat where "HANDSHAKE_TIMEOUT = 10000"
definition PING_TIMEOUT :: nat where "PING_TIMEOUT = 10000"
definition GETADDR_TIMEOUT :: nat where "GETADDR_TIMEOUT = 5000"
definition CONNECTIVITY_INTERVAL :: nat where "CONNECTIVITY_INTERVAL = 60000"

text \<open>The fields \<open>_channel\<close>, \<open>_connected\<close>, \<open>_version\<close> (\<open>null\<close> is \<open>None\<close>) and
  \<open>_timers\<close>.\<close>

record agent =
  channel :: peer_channel
  connected :: bool
  version :: "version_message option"
  timers :: timers

text \<open>
  What the agent reads from its collaborators, none of which is among the source files:
  \<open>this._blockchain.height\<close>, \<open>PlatformUtils.isBrowser()\<close>, the constants
  \<open>Services.WEBSOCKET\<close> and \<open>Services.WEBRTC\<close>, and the answer of
  \<open>this._addresses.find(serviceMask)\<close>. They are parameters of the model.
\<close>

record env =
  blockchain_height :: nat
  isBrowser :: bool
  Services_WEBSOCKET :: service_mask
  Services_WEBRTC :: service_mask
  addresses_find :: "service_mask \<Rightarrow> net_address list"

text \<open>\<open>_canAcceptMessage\<close>: the verdict, and the warning it prints when it discards.\<close>

definition isHandshakeMsg :: "message \<Rightarrow> bool" where
  "isHandshakeMsg msg = (msg_type msg = VERSION \<or> msg_type msg = VERACK)"

definition canAcceptMessage :: "agent \<Rightarrow> message \<Rightarrow> bool \<times> action list" where
  "canAcceptMessage s msg =
     (let accept = (isHandshakeMsg msg \<noteq> connected s)
      in (accept, if \<not> accept then [Console (WarnDiscarding (connected s) msg)] else []))"

text \<open>\<open>_handshake\<close> and the constructor.\<close>

definition handshake :: "env \<Rightarrow> agent \<Rightarrow> agent \<times> action list" where
  "handshake e s =
     (let t1 = setTimeout ''verack'' (CloseChannel ''verack timeout'') HANDSHAKE_TIMEOUT (timers s);
          t2 = setTimeout ''version'' (CloseChannel ''version timeout'') HANDSHAKE_TIMEOUT t1
      in (s\<lparr>timers := t2\<rparr>, [ChannelVersion (blockchain_height e)]))"

definition NetworkAgent :: "env \<Rightarrow> peer_channel \<Rightarrow> agent \<times> action list" where
  "NetworkAgent e ch =
     handshake e \<lparr>channel = ch, connected = False, version = None, timers = Map.empty\<rparr>"

text \<open>\<open>_onClose\<close>.\<close>

definition onClose :: "agent \<Rightarrow> agent \<times> action list" where
  "onClose s = (s\<lparr>timers := clearInterval ''connectivity'' (timers s)\<rparr>, [])"

text \<open>\<open>_onVersion\<close>.\<close>

definition onVersion :: "agent \<Rightarrow> version_message \<Rightarrow> agent \<times> action list" where
  "onVersion s msg =
     (let (accept, warned) = canAcceptMessage s (Version msg) in
      if \<not> accept then (s, warned)
      else if version s \<noteq> None then
        (s, [Console (LogVersion (msg_startHeight msg)), Console WarnDuplicateVersion,
             ChannelReject ''version'' DUPLICATE])
      else
        (s\<lparr>timers := clearTimeout ''version'' (timers s), version := Some msg\<rparr>,
         [Console (LogVersion (msg_startHeight msg)), ChannelVerAck]))"

text \<open>\<open>_requestAddresses\<close>.\<close>

definition requestAddresses :: "env \<Rightarrow> agent \<Rightarrow> agent \<times> action list" where
  "requestAddresses e s =
     (let serviceMask = Services_WEBSOCKET e;
          serviceMask = (if isBrowser e then serviceMask OR Services_WEBRTC e else serviceMask)
      in (s\<lparr>timers := setTimeout ''getaddr'' AddressesTimeout GETADDR_TIMEOUT (timers s)\<rparr>,
          [ChannelGetAddr serviceMask]))"

text \<open>\<open>_onVerAck\<close>.\<close>

definition onVerAck :: "env \<Rightarrow> agent \<Rightarrow> agent \<times> action list" where
  "onVerAck e s =
     (let (accept, warned) = canAcceptMessage s VerAck in
      if \<not> accept then (s, warned)
      else
        let s1 = s\<lparr>timers := clearTimeout ''verack'' (timers s)\<rparr> in
        case version s1 of
          None \<Rightarrow> (s1, [Console LogVerAck, ChannelClose ''verack before version''])
        | Some v \<Rightarrow>
            let s2 = s1\<lparr>connected := True\<rparr>;
                p = Peer (channel s2) (msg_version v) (msg_services v) ''TODO'' (msg_startHeight v);
                s3 = s2\<lparr>timers :=
                       setInterval ''connectivity'' CheckConnectivity CONNECTIVITY_INTERVAL (timers s2)\<rparr>;
                (s4, requested) = requestAddresses e s3
            in (s4, [Console LogVerAck, FireConnected p] @ requested))"

text \<open>\<open>_onAddr\<close>. The handler awaits the pool's \<open>push\<close> before it fires; the model
  takes the push to complete and the handler to run as one step.\<close>

definition onAddr :: "agent \<Rightarrow> net_address list \<Rightarrow> agent \<times> action list" where
  "onAddr s addresses =
     (let (accept, warned) = canAcceptMessage s (Addr addresses) in
      if \<not> accept then (s, warned)
      else
        (s\<lparr>timers := clearTimeout ''getaddr'' (timers s)\<rparr>,
         [Console (LogAddr (length addresses)), AddressesPush (channel s) addresses,
          FireAddresses addresses]))"

text \<open>\<open>_onGetAddr\<close>.\<close>

definition onGetAddr :: "env \<Rightarrow> agent \<Rightarrow> service_mask \<Rightarrow> agent \<times> action list" where
  "onGetAddr e s serviceMask =
     (let (accept, warned) = canAcceptMessage s (GetAddr serviceMask) in
      if \<not> accept then (s, warned)
      else (s, [Console (LogGetAddr serviceMask), ChannelAddr (addresses_find e serviceMask)]))"

text \<open>\<open>_checkConnectivity\<close>. The argument \<open>n\<close> is the value of
  \<open>Math.round(Math.random() * NumberUtils.UINT32_MAX)\<close>, an integer from \<open>0\<close> to
  \<open>2^32 - 1\<close> that the environment draws.\<close>

definition checkConnectivity :: "agent \<Rightarrow> nonce \<Rightarrow> agent \<times> action list" where
  "checkConnectivity s n =
     (s\<lparr>timers := setTimeout (ping_timer n) (CloseChannel ''ping timeout'') PING_TIMEOUT (timers s)\<rparr>,
      [ChannelPing n])"

text \<open>\<open>_onPing\<close> and \<open>_onPong\<close>.\<close>

definition onPing :: "agent \<Rightarrow> nonce \<Rightarrow> agent \<times> action list" where
  "onPing s n =
     (let (accept, warned) = canAcceptMessage s (Ping n) in
      if \<not> accept then (s, warned)
      else (s, [Console (LogPing n), ChannelPong n]))"

definition onPong :: "agent \<Rightarrow> nonce \<Rightarrow> agent \<times> action list" where
  "onPong s n =
     (s\<lparr>timers := clearTimeout (ping_timer n) (timers s)\<rparr>, [Console (LogPong n)])"

subsection \<open>Events and runs\<close>

text \<open>
  What can happen to an agent: the channel delivers a message or its \<open>close\<close> event, a
  pending one-shot timer elapses, or a pending interval ticks (with the number that
  \<open>Math.random\<close> gives the callback). As the specification
  says of the registry, a one-shot timer runs its callback once and is no longer pending
  afterwards, an interval stays pending, and a name that is not pending (never armed, or
  canceled) does not fire.
\<close>

datatype event =
    Receive message
  | ChannelClosed
  | TimeoutElapsed string
  | IntervalElapsed string nonce

fun runTimeout :: "agent \<Rightarrow> timeout_callback \<Rightarrow> agent \<times> action list" where
  "runTimeout s (CloseChannel reason) = (s, [ChannelClose reason])"
| "runTimeout s AddressesTimeout = (s, [Console WarnNoAddresses, FireAddresses []])"

fun runInterval :: "agent \<Rightarrow> interval_callback \<Rightarrow> nonce \<Rightarrow> agent \<times> action list" where
  "runInterval s CheckConnectivity n = checkConnectivity s n"

fun step :: "env \<Rightarrow> agent \<Rightarrow> event \<Rightarrow> agent \<times> action list" where
  "step e s (Receive (Version msg)) = onVersion s msg"
| "step e s (Receive VerAck) = onVerAck e s"
| "step e s (Receive (Addr addresses)) = onAddr s addresses"
| "step e s (Receive (GetAddr serviceMask)) = onGetAddr e s serviceMask"
| "step e s (Receive (Ping n)) = onPing s n"
| "step e s (Receive (Pong n)) = onPong s n"
| "step e s ChannelClosed = onClose s"
| "step e s (TimeoutElapsed name) =
     (case timers s name of
        Some (OneShot callback delay) \<Rightarrow> runTimeout (s\<lparr>timers := (timers s)(name := None)\<rparr>) callback
      | _ \<Rightarrow> (s, []))"
| "step e s (IntervalElapsed name n) =
     (case timers s name of
        Some (Repeating callback period) \<Rightarrow> runInterval s callback n
      | _ \<Rightarrow> (s, []))"

text \<open>The state after a sequence of events, and the record of the run: for each event
  the state it met and the calls its handler made.\<close>

fun final :: "env \<Rightarrow> agent \<Rightarrow> event list \<Rightarrow> agent" where
  "final e s [] = s"
| "final e s (ev # evs) = final e (fst (step e s ev)) evs"


subsection \<open>Observations on a run\<close>

fun is_connected_event :: "action \<Rightarrow> bool" where
  "is_connected_event (FireConnected p) = True"
| "is_connected_event a = False"

fun is_addresses_event :: "action \<Rightarrow> bool" where
  "is_addresses_event (FireAddresses addresses) = True"
| "is_addresses_event a = False"








text \<open>Before the handshake completes no interval and no ping timer is pending.\<close>

definition idle_inv :: "agent \<Rightarrow> bool" where
  "idle_inv s =
     ((\<forall>name callback period. timers s name = Some (Repeating callback period) \<longrightarrow> connected s) \<and>
      (\<forall>n. timers s (ping_timer n) \<noteq> None \<longrightarrow> connected s))"

text \<open>The interval \<open>connectivity\<close> is either not pending or the one \<open>_onVerAck\<close>
  arms.\<close>

definition interval_inv :: "agent \<Rightarrow> bool" where
  "interval_inv s =
     (timers s ''connectivity'' = None \<or>
      timers s ''connectivity'' = Some (Repeating CheckConnectivity CONNECTIVITY_INTERVAL))"

subsection \<open>A sample peer\<close>

definition env0 :: env where
  "env0 = \<lparr>blockchain_height = 100, isBrowser = False, Services_WEBSOCKET = 1,
            Services_WEBRTC = 2, addresses_find = (\<lambda>serviceMask. [])\<rparr>"

definition version0 :: version_message where
  "version0 = VersionMessage 1 1 250"

definition version1 :: version_message where
  "version1 = VersionMessage 2 3 999"

text \<open>The agent as constructed, after the peer's version, and after the peer's verack.\<close>

definition agent0 :: agent where
  "agent0 = fst (NetworkAgent env0 3)"

definition agent1 :: agent where
  "agent1 = final env0 agent0 [Receive (Version version0)]"

definition agent2 :: agent where
  "agent2 = final env0 agent0 [Receive (Version version0), Receive VerAck]"

text \<open>The connected agent after one connectivity tick that drew the nonce 7.\<close>

definition agent3 :: agent where
  "agent3 = fst (step env0 agent2 (IntervalElapsed ''connectivity'' 7))"

section \<open>Lemmas\<close>

subsection \<open>Timer names\<close>

lemma digit_inj: "a < 10 \<Longrightarrow> b < 10 \<Longrightarrow> digit a = digit b \<Longrightarrow> a = b"
proof -
  assume a: "a < 10" and b: "b < 10" and eq: "digit a = digit b"
  from eq have "(of_char (digit a) :: nat) = of_char (digit b)" by simp
  then have "(48 + a) mod 256 = (48 + b) mod 256" by (simp add: digit_def)
  with a b show "a = b" by simp
qed

lemma decimal_ne: "decimal n \<noteq> []"
  by (subst decimal.simps) simp

lemma decimal_inj: "decimal a = decimal b \<Longrightarrow> a = b"
proof (induction a arbitrary: b rule: decimal.induct)
  case (1 n)
  show ?case
  proof (cases "n < 10")
    case small: True
    show ?thesis
    proof (cases "b < 10")
      case True
      with small "1.prems" show ?thesis
        by (simp add: decimal.simps [of n] decimal.simps [of b] digit_inj)
    next
      case False
      with small "1.prems" show ?thesis
        using decimal_ne [of "b div 10"]
        by (simp add: decimal.simps [of n] decimal.simps [of b])
    qed
  next
    case big: False
    show ?thesis
    proof (cases "b < 10")
      case True
      with big "1.prems" show ?thesis
        using decimal_ne [of "n div 10"]
        by (simp add: decimal.simps [of n] decimal.simps [of b])
    next
      case False
      with big "1.prems" have q: "decimal (n div 10) = decimal (b div 10)"
        and r: "digit (n mod 10) = digit (b mod 10)"
        by (simp_all add: decimal.simps [of n] decimal.simps [of b])
      from "1.IH" [OF big q] have "n div 10 = b div 10" .
      moreover from r have "n mod 10 = b mod 10" by (simp add: digit_inj)
      ultimately show ?thesis by (metis div_mult_mod_eq)
    qed
  qed
qed

lemma ping_timer_inj: "ping_timer m = ping_timer n \<Longrightarrow> m = n"
proof -
  assume "ping_timer m = ping_timer n"
  then have "decimal (unat m) = decimal (unat n)" by (simp add: ping_timer_def)
  then have "unat m = unat n" by (rule decimal_inj)
  then show "m = n" by (simp add: word_unat_eq_iff)
qed

lemma ping_timer_names:
  "ping_timer n \<noteq> ''getaddr''" "ping_timer n \<noteq> ''version''" "ping_timer n \<noteq> ''verack''"
  "ping_timer n \<noteq> ''connectivity''"
  "''getaddr'' \<noteq> ping_timer n" "''version'' \<noteq> ping_timer n" "''verack'' \<noteq> ping_timer n"
  "''connectivity'' \<noteq> ping_timer n"
  by (simp_all add: ping_timer_def)

subsection \<open>One step\<close>

lemmas handler_defs = onVersion_def onVerAck_def onAddr_def onGetAddr_def onPing_def onPong_def
  onClose_def checkConnectivity_def requestAddresses_def canAcceptMessage_def isHandshakeMsg_def
  handshake_def NetworkAgent_def

lemmas timer_defs = setTimeout_def setInterval_def clearTimeout_def clearInterval_def

lemma runTimeout_eq:
  "runTimeout s callback =
     (case callback of CloseChannel reason \<Rightarrow> (s, [ChannelClose reason])
      | AddressesTimeout \<Rightarrow> (s, [Console WarnNoAddresses, FireAddresses []]))"
  by (cases callback) simp_all

lemma runInterval_eq: "runInterval s callback n = checkConnectivity s n"
  by (cases callback) simp

lemmas step_defs = handler_defs runTimeout_eq runInterval_eq Let_def

lemmas step_splits = option.splits timer_entry.splits timeout_callback.splits
  interval_callback.splits if_splits

lemma step_cases [case_names Version VerAck Addr GetAddr Ping Pong Closed Timeout Interval]:
  assumes "\<And>msg. ev = Receive (Version msg) \<Longrightarrow> P"
    and "ev = Receive VerAck \<Longrightarrow> P"
    and "\<And>addresses. ev = Receive (Addr addresses) \<Longrightarrow> P"
    and "\<And>serviceMask. ev = Receive (GetAddr serviceMask) \<Longrightarrow> P"
    and "\<And>n. ev = Receive (Ping n) \<Longrightarrow> P"
    and "\<And>n. ev = Receive (Pong n) \<Longrightarrow> P"
    and "ev = ChannelClosed \<Longrightarrow> P"
    and "\<And>name. ev = TimeoutElapsed name \<Longrightarrow> P"
    and "\<And>name n. ev = IntervalElapsed name n \<Longrightarrow> P"
  shows P
proof (cases ev)
  case (Receive msg)
  with assms(1-6) show ?thesis by (cases msg) auto
qed (use assms(7-9) in auto)

lemma version_kept: "version s = Some v \<Longrightarrow> version (fst (step e s ev)) = Some v"
  by (cases ev rule: step_cases)
     (auto simp: step_defs split: step_splits)









lemma idle_inv_kept: "idle_inv s \<Longrightarrow> idle_inv (fst (step e s ev))"
  by (cases ev rule: step_cases)
     (auto simp: idle_inv_def step_defs timer_defs ping_timer_names split: step_splits)

lemma idle_inv_init: "idle_inv (fst (NetworkAgent e ch))"
  by (simp add: idle_inv_def handler_defs timer_defs ping_timer_names Let_def)

lemma interval_inv_kept: "interval_inv s \<Longrightarrow> interval_inv (fst (step e s ev))"
  by (cases ev rule: step_cases)
     (auto simp: interval_inv_def step_defs timer_defs ping_timer_names split: step_splits)

lemma interval_inv_init: "interval_inv (fst (NetworkAgent e ch))"
  by (simp add: interval_inv_def handler_defs timer_defs Let_def)

lemma interval_inv_final: "interval_inv s \<Longrightarrow> interval_inv (final e s evs)"
  by (induction evs arbitrary: s) (simp_all add: interval_inv_kept)

subsection \<open>Runs\<close>





lemma idle_inv_final: "idle_inv s \<Longrightarrow> idle_inv (final e s evs)"
  by (induction evs arbitrary: s) (simp_all add: idle_inv_kept)








subsection \<open>The sample peer\<close>

lemma agent0_eq: "agent0 = \<lparr>channel = 3, connected = False, version = None,
   timers = [''verack'' \<mapsto> OneShot (CloseChannel ''verack timeout'') 10000,
             ''version'' \<mapsto> OneShot (CloseChannel ''version timeout'') 10000]\<rparr>"
  by (simp add: agent0_def env0_def handler_defs timer_defs HANDSHAKE_TIMEOUT_def Let_def)

lemma agent1_eq: "agent1 = \<lparr>channel = 3, connected = False, version = Some version0,
   timers = [''verack'' \<mapsto> OneShot (CloseChannel ''verack timeout'') 10000]\<rparr>"
  by (simp add: agent1_def agent0_eq handler_defs timer_defs Let_def)

lemma agent2_eq: "agent2 = \<lparr>channel = 3, connected = True, version = Some version0,
   timers = [''connectivity'' \<mapsto> Repeating CheckConnectivity 60000,
             ''getaddr'' \<mapsto> OneShot AddressesTimeout 5000]\<rparr>"
  by (simp add: agent2_def agent0_eq handler_defs timer_defs Let_def GETADDR_TIMEOUT_def
        CONNECTIVITY_INTERVAL_def)


lemma agent2_step: "fst (step env0 agent1 (Receive VerAck)) = agent2"
  by (simp add: agent1_def agent2_def)

lemma agent3_eq: "agent3 = \<lparr>channel = 3, connected = True, version = Some version0,
   timers = [''connectivity'' \<mapsto> Repeating CheckConnectivity 60000,
             ''getaddr'' \<mapsto> OneShot AddressesTimeout 5000,
             ping_timer 7 \<mapsto> OneShot (CloseChannel ''ping timeout'') 10000]\<rparr>"
  by (simp add: agent3_def agent2_eq step_defs timer_defs PING_TIMEOUT_def)


subsection \<open>More on runs\<close>





lemma check_drops:
  "msg_type msg \<noteq> PONG \<Longrightarrow> \<not> fst (canAcceptMessage s msg) \<Longrightarrow>
     step e s (Receive msg) = (s, [Console (WarnDiscarding (connected s) msg)])"
  by (cases msg) (auto simp: step_defs)

lemma pong_before_handshake:
  "\<not> connected (final e (fst (NetworkAgent e ch)) evs) \<Longrightarrow>
     step e (final e (fst (NetworkAgent e ch)) evs) (Receive (Pong n)) =
       (final e (fst (NetworkAgent e ch)) evs, [Console (LogPong n)])"
proof -
  let ?s = "final e (fst (NetworkAgent e ch)) evs"
  assume c: "\<not> connected ?s"
  have "idle_inv ?s" by (rule idle_inv_final [OF idle_inv_init])
  with c have "timers ?s (ping_timer n) = None" by (auto simp: idle_inv_def)
  then have "(timers ?s)(ping_timer n := None) = timers ?s" by (simp add: fun_upd_idem_iff)
  then show ?thesis by (simp add: onPong_def clearTimeout_def)
qed

section \<open>The claims\<close>

text \<open>
  C1. The claim: for each of the six message kinds and in every state, an inbound
  message is processed if and only if \<open>isHandshakeMsg msg \<noteq> connected\<close>, and a message
  that fails the check is dropped with no state change, no reply and no close. The
  handlers of version, verack, addr, getaddr and ping begin with \<open>_canAcceptMessage\<close>
  (lemma \<open>check_drops\<close>); \<open>_onPong\<close> does not. Evaluated on the agent as constructed
  (not connected): a pong fails the check, yet its handler runs (it prints its own line,
  not the discard warning, and calls \<open>clearTimeout\<close>), where a ping in the same state
  is discarded; and in a state with \<open>connected = false\<close> and a pending \<open>ping_7\<close> timer
  the pong cancels the timer. By lemma \<open>pong_before_handshake\<close> no state that events
  reach from the constructor has such a timer while not connected, so there the pong
  changes no field.
\<close>

theorem pong_is_not_gated:
  "\<not> fst (canAcceptMessage agent0 (Pong 7))
   \<and> step env0 agent0 (Receive (Pong 7)) = (agent0, [Console (LogPong 7)])
   \<and> step env0 agent0 (Receive (Ping 7)) = (agent0, [Console (WarnDiscarding False (Ping 7))])
   \<and> \<not> fst (canAcceptMessage
            (agent0\<lparr>timers := setTimeout (ping_timer 7) (CloseChannel ''ping timeout'')
                                PING_TIMEOUT (timers agent0)\<rparr>) (Pong 7))
   \<and> timers (agent0\<lparr>timers := setTimeout (ping_timer 7) (CloseChannel ''ping timeout'')
                                PING_TIMEOUT (timers agent0)\<rparr>) (ping_timer 7) \<noteq> None
   \<and> timers (fst (step env0
            (agent0\<lparr>timers := setTimeout (ping_timer 7) (CloseChannel ''ping timeout'')
                                PING_TIMEOUT (timers agent0)\<rparr>) (Receive (Pong 7))))
        (ping_timer 7) = None"
  by (simp add: agent0_eq step_defs timer_defs ping_timer_names fun_upd_idem_iff)





text \<open>
  C4. An acceptable verack that arrives while no version is stored: the handler cancels
  the timer \<open>verack\<close>, closes the channel with the reason "verack before version" and
  returns. \<open>connected\<close> stays false, no \<open>connected\<close> event fires, and neither the
  interval \<open>connectivity\<close> nor the timer \<open>getaddr\<close> is armed (no getaddr request is
  among the calls).
\<close>

theorem verack_before_version_closes:
  assumes "fst (canAcceptMessage s VerAck)" and "version s = None"
  shows "onVerAck e s =
           (s\<lparr>timers := clearTimeout ''verack'' (timers s)\<rparr>,
            [Console LogVerAck, ChannelClose ''verack before version''])
         \<and> connected (fst (onVerAck e s)) = False
         \<and> filter is_connected_event (snd (onVerAck e s)) = []
         \<and> timers (fst (onVerAck e s)) ''connectivity'' = timers s ''connectivity''
         \<and> timers (fst (onVerAck e s)) ''getaddr'' = timers s ''getaddr''"
  using assms by (simp add: step_defs timer_defs)

text \<open>The sample agent as constructed receives a verack.\<close>

theorem verack_before_version_closes_witness:
  "fst (canAcceptMessage agent0 VerAck) \<and> version agent0 = None
   \<and> snd (onVerAck env0 agent0) = [Console LogVerAck, ChannelClose ''verack before version'']
   \<and> connected (fst (onVerAck env0 agent0)) = False
   \<and> timers (fst (onVerAck env0 agent0)) ''connectivity'' = None
   \<and> timers (fst (onVerAck env0 agent0)) ''getaddr'' = None"
proof -
  have h1: "fst (canAcceptMessage agent0 VerAck)"
    by (simp add: agent0_eq canAcceptMessage_def isHandshakeMsg_def)
  have h2: "version agent0 = None" by (simp add: agent0_eq)
  from verack_before_version_closes [OF h1 h2, of env0] h1 h2 show ?thesis
    by (simp add: agent0_eq timer_defs)
qed

text \<open>
  C5. An acceptable version message that arrives while a version is stored: the handler
  sends a reject for the message type "version" with the code \<open>DUPLICATE\<close> and returns
  the agent unchanged; the stored version stays, whatever the new message holds, and the
  channel is not closed.
\<close>

theorem duplicate_version_rejected:
  assumes "fst (canAcceptMessage s (Version msg))" and "version s = Some v"
  shows "onVersion s msg =
           (s, [Console (LogVersion (msg_startHeight msg)), Console WarnDuplicateVersion,
                ChannelReject ''version'' DUPLICATE])
         \<and> version (fst (onVersion s msg)) = Some v"
  using assms by (simp add: step_defs)

text \<open>The sample agent holds \<open>version0\<close> and receives the different message \<open>version1\<close>.\<close>

theorem duplicate_version_rejected_witness:
  "fst (canAcceptMessage agent1 (Version version1)) \<and> version agent1 = Some version0
   \<and> version1 \<noteq> version0
   \<and> onVersion agent1 version1 =
       (agent1, [Console (LogVersion 999), Console WarnDuplicateVersion,
                 ChannelReject ''version'' DUPLICATE])
   \<and> version (fst (onVersion agent1 version1)) = Some version0"
proof -
  have h1: "fst (canAcceptMessage agent1 (Version version1))"
    by (simp add: agent1_eq canAcceptMessage_def isHandshakeMsg_def)
  have h2: "version agent1 = Some version0" by (simp add: agent1_eq)
  from duplicate_version_rejected [OF h1 h2] h1 h2 show ?thesis
    by (simp add: version0_def version1_def)
qed

text \<open>
  C6. An acceptable addr message cancels the timer \<open>getaddr\<close>, pushes the addresses
  into the pool under the agent's channel and then fires \<open>addresses\<close> with the list
  received; the timer does not fire afterwards. When the timer \<open>getaddr\<close> armed by
  \<open>_requestAddresses\<close> fires instead, the agent fires \<open>addresses\<close> with the empty
  list and pushes nothing into the pool.
\<close>

theorem addr_round_trip:
  "(fst (canAcceptMessage s (Addr addresses)) \<longrightarrow>
      onAddr s addresses =
        (s\<lparr>timers := clearTimeout ''getaddr'' (timers s)\<rparr>,
         [Console (LogAddr (length addresses)), AddressesPush (channel s) addresses,
          FireAddresses addresses])
      \<and> timers (fst (onAddr s addresses)) ''getaddr'' = None
      \<and> step e (fst (onAddr s addresses)) (TimeoutElapsed ''getaddr'') =
          (fst (onAddr s addresses), []))
   \<and> (timers s ''getaddr'' = Some (OneShot AddressesTimeout d) \<longrightarrow>
        step e s (TimeoutElapsed ''getaddr'') =
          (s\<lparr>timers := (timers s)(''getaddr'' := None)\<rparr>,
           [Console WarnNoAddresses, FireAddresses []]))
   \<and> timers (fst (requestAddresses e s)) ''getaddr'' =
        Some (OneShot AddressesTimeout GETADDR_TIMEOUT)"
  by (simp add: step_defs timer_defs)

text \<open>The connected sample agent receives two addresses, or its timer \<open>getaddr\<close> fires.\<close>

theorem addr_round_trip_witness:
  "fst (canAcceptMessage agent2 (Addr [''A'', ''B'']))
   \<and> timers agent2 ''getaddr'' = Some (OneShot AddressesTimeout 5000)
   \<and> snd (onAddr agent2 [''A'', ''B'']) =
        [Console (LogAddr 2), AddressesPush 3 [''A'', ''B''], FireAddresses [''A'', ''B'']]
   \<and> timers (fst (onAddr agent2 [''A'', ''B''])) ''getaddr'' = None
   \<and> snd (step env0 (fst (onAddr agent2 [''A'', ''B''])) (TimeoutElapsed ''getaddr'')) = []
   \<and> snd (step env0 agent2 (TimeoutElapsed ''getaddr'')) =
        [Console WarnNoAddresses, FireAddresses []]"
  using addr_round_trip [of agent2 "[''A'', ''B'']" env0 5000]
  by (simp add: agent2_eq step_defs timer_defs)

text \<open>
  C7. A tick of the interval \<open>connectivity\<close> sends a ping with the nonce drawn and arms
  the one-shot timer \<open>ping_<nonce>\<close>, whose firing closes the channel with the reason
  "ping timeout"; in a state that events reach from the constructor the interval is
  pending only while connected. A pong cancels the timer named by its own nonce and no
  other timer: a pong with a different nonce leaves the timer of an outstanding ping
  pending, a pong whose nonce names no pending timer leaves the agent as it is, and no
  pong closes the channel.
\<close>

theorem ping_pong_liveness:
  "(timers s ''connectivity'' = Some (Repeating CheckConnectivity period) \<longrightarrow>
      step e s (IntervalElapsed ''connectivity'' n) =
        (s\<lparr>timers := setTimeout (ping_timer n) (CloseChannel ''ping timeout'') PING_TIMEOUT
                        (timers s)\<rparr>,
         [ChannelPing n])
      \<and> step e (fst (step e s (IntervalElapsed ''connectivity'' n))) (TimeoutElapsed (ping_timer n)) =
          (s\<lparr>timers := (timers s)(ping_timer n := None)\<rparr>, [ChannelClose ''ping timeout'']))
   \<and> (timers (final e (fst (NetworkAgent e ch)) evs) ''connectivity'' \<noteq> None \<longrightarrow>
        connected (final e (fst (NetworkAgent e ch)) evs)
        \<and> timers (final e (fst (NetworkAgent e ch)) evs) ''connectivity'' =
            Some (Repeating CheckConnectivity CONNECTIVITY_INTERVAL))
   \<and> step e s (Receive (Pong m)) =
        (s\<lparr>timers := clearTimeout (ping_timer m) (timers s)\<rparr>, [Console (LogPong m)])
   \<and> timers (fst (step e s (Receive (Pong m)))) (ping_timer m) = None
   \<and> (\<forall>name. name \<noteq> ping_timer m \<longrightarrow>
         timers (fst (step e s (Receive (Pong m)))) name = timers s name)
   \<and> (m \<noteq> n \<longrightarrow>
         timers (fst (step e s (Receive (Pong m)))) (ping_timer n) = timers s (ping_timer n))
   \<and> (timers s (ping_timer m) = None \<longrightarrow> fst (step e s (Receive (Pong m))) = s)"
proof -
  let ?a = "final e (fst (NetworkAgent e ch)) evs"
  have tick: "timers s ''connectivity'' = Some (Repeating CheckConnectivity period) \<longrightarrow>
      step e s (IntervalElapsed ''connectivity'' n) =
        (s\<lparr>timers := setTimeout (ping_timer n) (CloseChannel ''ping timeout'') PING_TIMEOUT
                        (timers s)\<rparr>,
         [ChannelPing n])
      \<and> step e (fst (step e s (IntervalElapsed ''connectivity'' n))) (TimeoutElapsed (ping_timer n)) =
          (s\<lparr>timers := (timers s)(ping_timer n := None)\<rparr>, [ChannelClose ''ping timeout''])"
    by (simp add: step_defs timer_defs)
  have "idle_inv ?a" by (rule idle_inv_final [OF idle_inv_init])
  moreover have "interval_inv ?a" by (rule interval_inv_final [OF interval_inv_init])
  ultimately have reach: "timers ?a ''connectivity'' \<noteq> None \<longrightarrow>
        connected ?a
        \<and> timers ?a ''connectivity'' = Some (Repeating CheckConnectivity CONNECTIVITY_INTERVAL)"
    by (auto simp: idle_inv_def interval_inv_def)
  have pong: "step e s (Receive (Pong m)) =
        (s\<lparr>timers := clearTimeout (ping_timer m) (timers s)\<rparr>, [Console (LogPong m)])"
    by (simp add: onPong_def)
  have same: "timers (fst (step e s (Receive (Pong m)))) (ping_timer m) = None"
    by (simp add: onPong_def clearTimeout_def)
  have others: "\<forall>name. name \<noteq> ping_timer m \<longrightarrow>
         timers (fst (step e s (Receive (Pong m)))) name = timers s name"
    by (simp add: onPong_def clearTimeout_def)
  have "m \<noteq> n \<longrightarrow> ping_timer n \<noteq> ping_timer m" using ping_timer_inj by blast
  with others have mismatch: "m \<noteq> n \<longrightarrow>
         timers (fst (step e s (Receive (Pong m)))) (ping_timer n) = timers s (ping_timer n)"
    by blast
  have stale: "timers s (ping_timer m) = None \<longrightarrow> fst (step e s (Receive (Pong m))) = s"
    by (simp add: onPong_def clearTimeout_def fun_upd_idem_iff)
  from tick reach pong same others mismatch stale show ?thesis by blast
qed

text \<open>The connected sample agent ticks with the nonce 7; then a pong 7, or a pong 8.\<close>

theorem ping_pong_liveness_witness:
  "timers agent2 ''connectivity'' = Some (Repeating CheckConnectivity 60000)
   \<and> step env0 agent2 (IntervalElapsed ''connectivity'' 7) = (agent3, [ChannelPing 7])
   \<and> timers agent3 (ping_timer 7) = Some (OneShot (CloseChannel ''ping timeout'') 10000)
   \<and> snd (step env0 agent3 (TimeoutElapsed (ping_timer 7))) = [ChannelClose ''ping timeout'']
   \<and> timers (fst (step env0 agent3 (Receive (Pong 7)))) (ping_timer 7) = None
   \<and> (8::nonce) \<noteq> 7
   \<and> timers (fst (step env0 agent3 (Receive (Pong 8)))) (ping_timer 7) =
        Some (OneShot (CloseChannel ''ping timeout'') 10000)
   \<and> timers agent3 (ping_timer 8) = None
   \<and> fst (step env0 agent3 (Receive (Pong 8))) = agent3
   \<and> connected agent2"
proof -
  have a2: "final env0 (fst (NetworkAgent env0 3)) [Receive (Version version0), Receive VerAck] = agent2"
    by (simp add: agent2_def agent0_def)
  note at3 = ping_pong_liveness [of agent3 60000 env0 7 3 "[]" 8]
  note at2 = ping_pong_liveness
      [of agent2 60000 env0 7 3 "[Receive (Version version0), Receive VerAck]" 7, unfolded a2]
  have h: "timers agent2 ''connectivity'' = Some (Repeating CheckConnectivity 60000)"
    by (simp add: agent2_eq)
  then have "timers agent2 ''connectivity'' \<noteq> None" by simp
  with at2 have conn: "connected agent2" by blast
  from h at2
  have tick: "step env0 agent2 (IntervalElapsed ''connectivity'' 7) = (agent3, [ChannelPing 7])"
    by (simp add: agent3_def)
  have armed: "timers agent3 (ping_timer 7) = Some (OneShot (CloseChannel ''ping timeout'') 10000)"
    by (simp add: agent3_eq)
  have fires: "snd (step env0 agent3 (TimeoutElapsed (ping_timer 7))) = [ChannelClose ''ping timeout'']"
    by (simp add: agent3_eq)
  from ping_pong_liveness [of agent3 60000 env0 7 3 "[]" 7]
  have matching: "timers (fst (step env0 agent3 (Receive (Pong 7)))) (ping_timer 7) = None"
    by blast
  have ne: "(8::nonce) \<noteq> 7" by simp
  with at3
  have "timers (fst (step env0 agent3 (Receive (Pong 8)))) (ping_timer 7) =
        timers agent3 (ping_timer 7)"
    by blast
  with armed
  have mismatch: "timers (fst (step env0 agent3 (Receive (Pong 8)))) (ping_timer 7) =
        Some (OneShot (CloseChannel ''ping timeout'') 10000)"
    by (simp only:)
  have "ping_timer 8 \<noteq> ping_timer 7" using ping_timer_inj [of 8 7] by auto
  then have none: "timers agent3 (ping_timer 8) = None"
    by (simp add: agent3_eq ping_timer_names)
  with at3 have stale: "fst (step env0 agent3 (Receive (Pong 8))) = agent3" by blast
  from h tick armed fires matching ne mismatch none stale conn show ?thesis by blast
qed

text \<open>
  C8. The first acceptable version message (no version stored): the handler cancels the
  timer \<open>version\<close>, sends a verack and stores the message; \<open>connected\<close> stays false
  and no event fires.
\<close>

theorem first_version_stored:
  assumes "fst (canAcceptMessage s (Version msg))" and "version s = None"
  shows "onVersion s msg =
           (s\<lparr>timers := clearTimeout ''version'' (timers s), version := Some msg\<rparr>,
            [Console (LogVersion (msg_startHeight msg)), ChannelVerAck])
         \<and> timers (fst (onVersion s msg)) ''version'' = None
         \<and> version (fst (onVersion s msg)) = Some msg
         \<and> connected (fst (onVersion s msg)) = False
         \<and> filter is_connected_event (snd (onVersion s msg)) = []
         \<and> filter is_addresses_event (snd (onVersion s msg)) = []"
  using assms by (simp add: step_defs timer_defs)

text \<open>The sample agent as constructed receives \<open>version0\<close>.\<close>

theorem first_version_stored_witness:
  "fst (canAcceptMessage agent0 (Version version0)) \<and> version agent0 = None
   \<and> timers agent0 ''version'' = Some (OneShot (CloseChannel ''version timeout'') 10000)
   \<and> onVersion agent0 version0 = (agent1, [Console (LogVersion 250), ChannelVerAck])
   \<and> timers agent1 ''version'' = None
   \<and> version agent1 = Some version0
   \<and> connected agent1 = False"
proof -
  have h1: "fst (canAcceptMessage agent0 (Version version0))"
    by (simp add: agent0_eq canAcceptMessage_def isHandshakeMsg_def)
  have h2: "version agent0 = None" by (simp add: agent0_eq)
  from first_version_stored [OF h1 h2] h1 h2 show ?thesis
    by (simp add: agent0_eq agent1_eq timer_defs version0_def)
qed

text \<open>
  C9. Every step keeps the invariant that a connected agent has a stored version;
  \<open>connected\<close> becomes true only in a step that met a stored version; a stored
  version is never cleared or replaced; the invariant holds for the agent as constructed
  and after every sequence of events.
\<close>

theorem connected_implies_version:
  "((connected s \<longrightarrow> version s \<noteq> None) \<longrightarrow>
      (connected (fst (step e s ev)) \<longrightarrow> version (fst (step e s ev)) \<noteq> None))
   \<and> (\<not> connected s \<and> connected (fst (step e s ev)) \<longrightarrow> version s \<noteq> None)
   \<and> (version s = Some v \<longrightarrow> version (fst (step e s ev)) = Some v)
   \<and> (connected (fst (NetworkAgent e ch)) \<longrightarrow> version (fst (NetworkAgent e ch)) \<noteq> None)
   \<and> (connected (final e (fst (NetworkAgent e ch)) evs) \<longrightarrow>
        version (final e (fst (NetworkAgent e ch)) evs) \<noteq> None)"
proof -
  have keep: "(connected s \<longrightarrow> version s \<noteq> None) \<longrightarrow>
      (connected (fst (step e s ev)) \<longrightarrow> version (fst (step e s ev)) \<noteq> None)" for s ev
    by (cases ev rule: step_cases) (auto simp: step_defs split: step_splits)
  have after: "\<not> connected s \<and> connected (fst (step e s ev)) \<longrightarrow> version s \<noteq> None"
    by (cases ev rule: step_cases) (auto simp: step_defs split: step_splits)
  have stays: "version s = Some v \<longrightarrow> version (fst (step e s ev)) = Some v"
    by (simp add: version_kept)
  have init: "connected (fst (NetworkAgent e ch)) \<longrightarrow> version (fst (NetworkAgent e ch)) \<noteq> None"
    by (simp add: handler_defs Let_def)
  have run: "(connected t \<longrightarrow> version t \<noteq> None) \<Longrightarrow>
      connected (final e t evs) \<longrightarrow> version (final e t evs) \<noteq> None" for t
  proof (induction evs arbitrary: t)
    case Nil
    then show ?case by simp
  next
    case (Cons x xs)
    from keep [of t x] Cons.prems
    have "connected (fst (step e t x)) \<longrightarrow> version (fst (step e t x)) \<noteq> None" by blast
    then show ?case using Cons.IH by simp
  qed
  from keep [of s ev] after stays init run [OF init] show ?thesis by blast
qed

text \<open>The sample agent between the peer's version and the peer's verack.\<close>

theorem connected_implies_version_witness:
  "\<not> connected agent1
   \<and> connected (fst (step env0 agent1 (Receive VerAck)))
   \<and> version agent1 = Some version0
   \<and> version (fst (step env0 agent1 (Receive VerAck))) = Some version0
   \<and> connected agent2 \<and> version agent2 = Some version0"
proof -
  note inst = connected_implies_version
      [of agent1 env0 "Receive VerAck" version0 3 "[Receive (Version version0), Receive VerAck]"]
  have nc: "\<not> connected agent1" by (simp add: agent1_eq)
  have c: "connected (fst (step env0 agent1 (Receive VerAck)))"
    by (simp add: agent2_step agent2_eq del: step.simps)
  have v: "version agent1 = Some version0" by (simp add: agent1_eq)
  with inst have v': "version (fst (step env0 agent1 (Receive VerAck))) = Some version0" by blast
  have "connected agent2 \<and> version agent2 = Some version0" by (simp add: agent2_eq)
  with nc c v v' show ?thesis by blast
qed

text \<open>
  C10. On the channel's \<open>close\<close> event the handler cancels the entry \<open>connectivity\<close>
  and nothing else: every other timer name keeps its entry, and \<open>connected\<close> and the
  stored version stay. A timer \<open>getaddr\<close> that was pending at the close therefore still
  fires afterwards and emits \<open>addresses\<close> with the empty list.
\<close>

theorem close_cancels_connectivity_only:
  "step e s ChannelClosed = (s\<lparr>timers := clearInterval ''connectivity'' (timers s)\<rparr>, [])
   \<and> timers (fst (step e s ChannelClosed)) ''connectivity'' = None
   \<and> (\<forall>name. name \<noteq> ''connectivity'' \<longrightarrow>
         timers (fst (step e s ChannelClosed)) name = timers s name)
   \<and> connected (fst (step e s ChannelClosed)) = connected s
   \<and> version (fst (step e s ChannelClosed)) = version s
   \<and> (timers s ''getaddr'' = Some (OneShot AddressesTimeout d) \<longrightarrow>
        snd (step e (fst (step e s ChannelClosed)) (TimeoutElapsed ''getaddr'')) =
          [Console WarnNoAddresses, FireAddresses []])"
  by (simp add: onClose_def clearInterval_def)

text \<open>The connected sample agent, with its getaddr round open, sees the channel close.\<close>

theorem close_cancels_connectivity_only_witness:
  "timers agent2 ''connectivity'' = Some (Repeating CheckConnectivity 60000)
   \<and> timers agent2 ''getaddr'' = Some (OneShot AddressesTimeout 5000)
   \<and> timers (fst (step env0 agent2 ChannelClosed)) ''connectivity'' = None
   \<and> timers (fst (step env0 agent2 ChannelClosed)) ''getaddr'' = Some (OneShot AddressesTimeout 5000)
   \<and> timers (fst (step env0 agent3 ChannelClosed)) (ping_timer 7) =
        Some (OneShot (CloseChannel ''ping timeout'') 10000)
   \<and> timers (fst (step env0 agent0 ChannelClosed)) ''version'' =
        Some (OneShot (CloseChannel ''version timeout'') 10000)
   \<and> timers (fst (step env0 agent0 ChannelClosed)) ''verack'' =
        Some (OneShot (CloseChannel ''verack timeout'') 10000)
   \<and> snd (step env0 (fst (step env0 agent2 ChannelClosed)) (TimeoutElapsed ''getaddr'')) =
        [Console WarnNoAddresses, FireAddresses []]"
proof -
  have h: "timers agent2 ''getaddr'' = Some (OneShot AddressesTimeout 5000)"
    by (simp add: agent2_eq)
  from close_cancels_connectivity_only [of env0 agent2 5000] h
  have late: "snd (step env0 (fst (step env0 agent2 ChannelClosed)) (TimeoutElapsed ''getaddr'')) =
        [Console WarnNoAddresses, FireAddresses []]"
    by blast
  have rest: "timers agent2 ''connectivity'' = Some (Repeating CheckConnectivity 60000)
   \<and> timers (fst (step env0 agent2 ChannelClosed)) ''connectivity'' = None
   \<and> timers (fst (step env0 agent2 ChannelClosed)) ''getaddr'' = Some (OneShot AddressesTimeout 5000)
   \<and> timers (fst (step env0 agent3 ChannelClosed)) (ping_timer 7) =
        Some (OneShot (CloseChannel ''ping timeout'') 10000)
   \<and> timers (fst (step env0 agent0 ChannelClosed)) ''version'' =
        Some (OneShot (CloseChannel ''version timeout'') 10000)
   \<and> timers (fst (step env0 agent0 ChannelClosed)) ''verack'' =
        Some (OneShot (CloseChannel ''verack timeout'') 10000)"
    by (simp add: agent0_eq agent2_eq agent3_eq onClose_def clearInterval_def ping_timer_names)
  from h late rest show ?thesis by blast
qed

end
